theory Spec2Isabelle
  imports Main
begin

section \<open>Runtime matrix: \<open>JAVA_VERSION_MAP\<close> and \<open>getRequiredJavaVersion\<close>\<close>

text \<open>
  \<open>String.prototype.startsWith\<close>: the receiver begins with the code units of the
  argument. Strings are lists of characters.
\<close>

definition startsWith :: "string \<Rightarrow> string \<Rightarrow> bool" where
  "startsWith s p = (take (length p) s = p)"

text \<open>
  The object literal \<open>JAVA_VERSION_MAP\<close> of \<open>server.js\<close>, as \<open>Object.entries\<close>
  enumerates it. The unquoted keys are numeric literals whose property names are their
  decimal renderings (\<open>1.21\<close> is the name \<open>"1.21"\<close>); none of the names is an array index,
  so the enumeration follows the order of the literal.
\<close>

definition JAVA_VERSION_MAP :: "(string \<times> nat) list" where
  "JAVA_VERSION_MAP =
    [(''1.21'', 21), (''1.20.5'', 21), (''1.20.4'', 17), (''1.20'', 17),
     (''1.19'', 17), (''1.18'', 17), (''1.17'', 17), (''1.16'', 11),
     (''1.15'', 11), (''1.14'', 11), (''1.13'', 11), (''1.12'', 8)]"

text \<open>The \<open>for ... of\<close> loop of \<open>getRequiredJavaVersion\<close>, with its default after the loop.\<close>

fun firstPrefixEntry :: "(string \<times> nat) list \<Rightarrow> string \<Rightarrow> nat" where
  "firstPrefixEntry [] mcVersion = 17"
| "firstPrefixEntry ((version, javaVer) # entries) mcVersion =
     (if startsWith mcVersion version then javaVer
      else firstPrefixEntry entries mcVersion)"

definition getRequiredJavaVersion :: "string \<Rightarrow> nat" where
  "getRequiredJavaVersion mcVersion = firstPrefixEntry JAVA_VERSION_MAP mcVersion"

text \<open>
  A table is prefix-ordered when no key is a proper prefix of a key that comes before
  it is tried, that is, of a key later in the list.
\<close>

fun prefixOrdered :: "(string \<times> nat) list \<Rightarrow> bool" where
  "prefixOrdered [] = True"
| "prefixOrdered ((k, j) # entries) =
     (list_all (\<lambda>(k', j'). \<not> (startsWith k' k \<and> k' \<noteq> k)) entries \<and> prefixOrdered entries)"

section \<open>Authentication middleware\<close>

record headers =
  authorization :: "string option"
  x_api_key :: "string option"

datatype auth_outcome = Next | Unauthorized

text \<open>
  \<open>config.nodeKey\<close> is a string of the configuration document or is missing; a missing
  key and the empty string are the falsy values of that type.
\<close>

definition falsyKey :: "string option \<Rightarrow> bool" where
  "falsyKey k = (case k of None \<Rightarrow> True | Some s \<Rightarrow> s = [])"

definition authMiddleware :: "string option \<Rightarrow> headers \<Rightarrow> auth_outcome" where
  "authMiddleware nodeKey req =
     (if falsyKey nodeKey then Next
      else if authorization req = Some (''Bearer '' @ the nodeKey)
              \<or> x_api_key req = nodeKey then Next
      else Unauthorized)"

section \<open>Paths\<close>

text \<open>
  Node's \<open>path\<close> module on POSIX. \<open>normalizeString\<close> walks the segments between
  slashes: an empty segment and \<open>.\<close> are skipped, \<open>..\<close> removes the segment before it when
  there is one that is not itself \<open>..\<close>, and otherwise is kept only if the path is
  relative (\<open>allowAboveRoot\<close>).
\<close>

fun splitOn :: "char \<Rightarrow> string \<Rightarrow> string list" where
  "splitOn c [] = [[]]"
| "splitOn c (x # xs) =
     (if x = c then [] # splitOn c xs
      else (case splitOn c xs of [] \<Rightarrow> [[x]] | seg # segs \<Rightarrow> (x # seg) # segs))"

fun joinWith :: "char \<Rightarrow> string list \<Rightarrow> string" where
  "joinWith c [] = []"
| "joinWith c [seg] = seg"
| "joinWith c (seg # segs) = seg @ c # joinWith c segs"

fun normalizeSegments :: "bool \<Rightarrow> string list \<Rightarrow> string list \<Rightarrow> string list" where
  "normalizeSegments allowAboveRoot res [] = res"
| "normalizeSegments allowAboveRoot res (seg # segs) =
     (if seg = [] \<or> seg = ''.'' then normalizeSegments allowAboveRoot res segs
      else if seg = ''..'' then
        (if res \<noteq> [] \<and> last res \<noteq> ''..'' then normalizeSegments allowAboveRoot (butlast res) segs
         else if allowAboveRoot then normalizeSegments allowAboveRoot (res @ [''..'']) segs
         else normalizeSegments allowAboveRoot res segs)
      else normalizeSegments allowAboveRoot (res @ [seg]) segs)"

definition normalizeString :: "string \<Rightarrow> bool \<Rightarrow> string" where
  "normalizeString path allowAboveRoot =
     joinWith CHR ''/'' (normalizeSegments allowAboveRoot [] (splitOn CHR ''/'' path))"

definition isAbsolute :: "string \<Rightarrow> bool" where
  "isAbsolute path = (case path of [] \<Rightarrow> False | c # cs \<Rightarrow> c = CHR ''/'')"

definition normalize :: "string \<Rightarrow> string" where
  "normalize path =
     (if path = [] then ''.''
      else
        let trailingSeparator = (last path = CHR ''/'');
            norm = normalizeString path (\<not> isAbsolute path)
        in if norm = [] then
             (if isAbsolute path then ''/'' else if trailingSeparator then ''./'' else ''.'')
           else
             (if isAbsolute path then ''/'' else []) @ norm
               @ (if trailingSeparator then ''/'' else []))"

text \<open>\<open>path.join\<close> of two arguments: empty arguments are left out.\<close>

definition path_join :: "string \<Rightarrow> string \<Rightarrow> string" where
  "path_join a b =
     (if a = [] \<and> b = [] then ''.''
      else if a = [] then normalize b
      else if b = [] then normalize a
      else normalize (a @ ''/'' @ b))"

text \<open>\<open>path.resolve\<close> of one argument; \<open>cwd\<close> is the working directory, an absolute path.\<close>

definition path_resolve :: "string \<Rightarrow> string \<Rightarrow> string" where
  "path_resolve cwd path =
     (if isAbsolute path then ''/'' @ normalizeString path False
      else ''/'' @ normalizeString (cwd @ ''/'' @ path) False)"

section \<open>Process supervisor: registry, process objects and effects\<close>

text \<open>
  An entry of \<open>config.servers\<close>. Of the fields of an instance's configuration the
  lifecycle routes read \<open>directory\<close> and write \<open>lastStarted\<close>; the timestamp is kept as
  the clock reading in milliseconds that \<open>toISOString\<close> renders.
\<close>

record server_config =
  directory :: string
  lastStarted :: "nat option"

text \<open>
  Reading \<open>config.servers[id]\<close>. The object comes from \<open>JSON.parse\<close>, so besides its own
  entries it answers for the names it inherits from \<open>Object.prototype\<close>, with a function
  or with the prototype itself: a value that is not falsy and has no \<open>directory\<close>.
\<close>

definition objectPrototypeNames :: "string list" where
  "objectPrototypeNames =
     [''constructor'', ''__defineGetter__'', ''__defineSetter__'', ''hasOwnProperty'',
      ''__lookupGetter__'', ''__lookupSetter__'', ''isPrototypeOf'', ''propertyIsEnumerable'',
      ''toString'', ''valueOf'', ''__proto__'', ''toLocaleString'']"

datatype property = Absent | Own server_config | Inherited

definition lookupServer :: "(string \<rightharpoonup> server_config) \<Rightarrow> string \<Rightarrow> property" where
  "lookupServer tbl sid =
     (case tbl sid of
        Some server \<Rightarrow> Own server
      | None \<Rightarrow> if sid \<in> set objectPrototypeNames then Inherited else Absent)"

text \<open>
  The listeners that the routes register on a pty. \<open>/instances/:id/start\<close> registers
  an \<open>onData\<close> and an \<open>onExit\<close> listener, \<open>/instances/:id/restart\<close> an \<open>onData\<close> listener
  only. Each listener is a closure over the route's \<open>serverId\<close> and over the process
  object it created.
\<close>

datatype onData_listener = StartOnData | RestartOnData

datatype onExit_listener = StartOnExit

record serverProcess =
  serverId :: string
  pid :: nat
  startTime :: nat
  logs :: "(nat \<times> string) list"
  onData :: onData_listener
  onExit :: "onExit_listener option"

datatype signal = SIGTERM | SIGKILL

datatype event =
    ConsoleOutput string "string option" "nat option"
  | ServerStopped int "int option"

text \<open>
  What a handler does to the outside, in the order it does it: \<open>kill(pid, signal)\<close>,
  \<open>setTimeout\<close> with its delay in milliseconds, \<open>pty.spawn\<close> of \<open>bash\<close> on a script,
  \<open>io.to(room).emit\<close>, and \<open>saveConfig\<close>.
\<close>

datatype effect =
    Kill nat signal
  | Timer nat
  | Spawn string
  | Emit string event
  | SaveConfig

text \<open>
  The daemon's state. \<open>servers\<close> is \<open>config.servers\<close>, which is undefined (\<open>None\<close>) when
  the configuration document that was loaded has no such member; \<open>disk\<close> is that member
  of the document last written. \<open>activeServers\<close> maps an identifier to a reference to a
  process object, \<open>heap\<close> holds the objects, so that a listener keeps writing to its own
  object whether or not the registry still points to it. \<open>alive\<close> are the ptys that were
  spawned and have not exited. \<open>clock\<close> is what \<open>Date.now()\<close> reads, the wall clock in
  milliseconds; it does not move within one synchronous turn of a handler. A reference in the registry always points to
  an object; where a handler looks one up, the branch for a missing object is there to
  make the function total.
\<close>

record daemon =
  servers :: "(string \<rightharpoonup> server_config) option"
  disk :: "(string \<rightharpoonup> server_config) option"
  activeServers :: "string \<rightharpoonup> nat"
  heap :: "nat \<rightharpoonup> serverProcess"
  nextRef :: nat
  alive :: "nat set"
  clock :: nat
  journal :: "effect list"
  rooms :: "(nat \<times> string) set"

text \<open>
  What the environment decides during a turn: \<open>pty.spawn\<close> throws with a message or
  returns a pty with a pid; \<open>fs.writeFileSync\<close> in \<open>saveConfig\<close> may throw.
\<close>

record env =
  spawned :: "string + nat"
  saveError :: "string option"

text \<open>
  The answers of the routes. \<open>Html_error\<close> is the error page of express for a throw in a
  handler that has no \<open>try\<close>. \<open>Json_instance\<close> carries the fields spread from the entry
  (none for an inherited value), the status, the pid and the uptime.
\<close>

datatype response =
    Json_ok
  | Json_pid nat
  | Json_error nat string
  | Html_error nat
  | Json_instance "server_config option" string "nat option" int

definition room :: "string \<Rightarrow> string" where
  "room sid = ''server-'' @ sid"

text \<open>The message of the TypeError thrown by \<open>config.servers[id]\<close> on an undefined \<open>servers\<close>.\<close>

definition readingUndefined :: "string \<Rightarrow> string" where
  "readingUndefined sid = ''Cannot read properties of undefined (reading '' @ [CHR 0x27] @ sid @ [CHR 0x27] @ '')''"

text \<open>The message of the TypeError thrown by \<open>path.join\<close> on an undefined first argument.\<close>

definition pathArgumentUndefined :: string where
  "pathArgumentUndefined =
     ''The '' @ [CHR 0x22] @ ''path'' @ [CHR 0x22] @ '' argument must be of type string. Received undefined''"

definition startScriptOf :: "server_config \<Rightarrow> string" where
  "startScriptOf server = path_join (directory server) ''start.sh''"

text \<open>
  Time passes between turns, and the wall clock that \<open>Date.now()\<close> reads may be set, also
  to an earlier time.
\<close>

definition elapse :: "nat \<Rightarrow> daemon \<Rightarrow> daemon" where
  "elapse d s = s\<lparr>clock := clock s + d\<rparr>"

definition setClock :: "nat \<Rightarrow> daemon \<Rightarrow> daemon" where
  "setClock t s = s\<lparr>clock := t\<rparr>"

subsection \<open>\<open>POST /instances/:id/start\<close>\<close>

definition start :: "string \<Rightarrow> env \<Rightarrow> daemon \<Rightarrow> response \<times> daemon" where
  "start sid e s =
    (case servers s of
       None \<Rightarrow> (Json_error 500 (readingUndefined sid), s)
     | Some tbl \<Rightarrow>
        (case lookupServer tbl sid of
           Absent \<Rightarrow> (Json_error 404 ''Server not found'', s)
         | Inherited \<Rightarrow>
            if activeServers s sid \<noteq> None then (Json_error 400 ''Server already running'', s)
            else (Json_error 500 pathArgumentUndefined, s)
         | Own server \<Rightarrow>
            if activeServers s sid \<noteq> None then (Json_error 400 ''Server already running'', s)
            else
              (case spawned e of
                 Inl msg \<Rightarrow> (Json_error 500 msg, s\<lparr>journal := journal s @ [Spawn (startScriptOf server)]\<rparr>)
               | Inr p \<Rightarrow>
                  let ref = nextRef s;
                      proc = \<lparr>serverId = sid, pid = p, startTime = clock s, logs = [],
                              onData = StartOnData, onExit = Some StartOnExit\<rparr>;
                      tbl' = tbl(sid \<mapsto> server\<lparr>lastStarted := Some (clock s)\<rparr>);
                      s1 = s\<lparr>servers := Some tbl',
                             activeServers := (activeServers s)(sid \<mapsto> ref),
                             heap := (heap s)(ref \<mapsto> proc),
                             nextRef := Suc ref,
                             alive := insert ref (alive s),
                             journal := journal s @ [Spawn (startScriptOf server), SaveConfig]\<rparr>
                  in (case saveError e of
                        Some msg \<Rightarrow> (Json_error 500 msg, s1)
                      | None \<Rightarrow> (Json_pid p, s1\<lparr>disk := Some tbl'\<rparr>)))))"

subsection \<open>\<open>POST /instances/:id/restart\<close>\<close>

text \<open>
  The handler is an \<open>async\<close> function with two \<open>await\<close>s inside \<open>if (serverProcess)\<close>, so
  on a registered identifier it runs in three turns of the event loop, and other
  handlers and listeners run between them:
  \<^item> \<open>restart_begin\<close>: up to the first \<open>await\<close>, which calls \<open>kill(pid, "SIGTERM", cb)\<close>;
  \<^item> \<open>restart_killed\<close>: the callback \<open>cb\<close> deletes the registry entry and resolves, and the
    handler goes on to \<open>setTimeout(r, 2000)\<close>;
  \<^item> \<open>restart_resume\<close>: once the timer has fired, the rest of the handler.
  On an unregistered identifier the handler is \<open>restart_resume\<close> alone, in one turn.
\<close>

definition restart_begin :: "string \<Rightarrow> daemon \<Rightarrow> daemon" where
  "restart_begin sid s =
    (case activeServers s sid of
       None \<Rightarrow> s
     | Some ref \<Rightarrow>
        (case heap s ref of
           None \<Rightarrow> s
         | Some proc \<Rightarrow> s\<lparr>journal := journal s @ [Kill (pid proc) SIGTERM]\<rparr>))"

definition restart_killed :: "string \<Rightarrow> daemon \<Rightarrow> daemon" where
  "restart_killed sid s =
     s\<lparr>activeServers := (activeServers s)(sid := None), journal := journal s @ [Timer 2000]\<rparr>"

definition restart_resume :: "string \<Rightarrow> env \<Rightarrow> daemon \<Rightarrow> response \<times> daemon" where
  "restart_resume sid e s =
    (case servers s of
       None \<Rightarrow> (Json_error 500 (readingUndefined sid), s)
     | Some tbl \<Rightarrow>
        (case lookupServer tbl sid of
           Absent \<Rightarrow> (Json_error 404 ''Server not found'', s)
         | Inherited \<Rightarrow> (Json_error 500 pathArgumentUndefined, s)
         | Own server \<Rightarrow>
            (case spawned e of
               Inl msg \<Rightarrow> (Json_error 500 msg, s\<lparr>journal := journal s @ [Spawn (startScriptOf server)]\<rparr>)
             | Inr p \<Rightarrow>
                let ref = nextRef s;
                    proc = \<lparr>serverId = sid, pid = p, startTime = clock s, logs = [],
                            onData = RestartOnData, onExit = None\<rparr>
                in (Json_pid p,
                    s\<lparr>activeServers := (activeServers s)(sid \<mapsto> ref),
                      heap := (heap s)(ref \<mapsto> proc),
                      nextRef := Suc ref,
                      alive := insert ref (alive s),
                      journal := journal s @ [Spawn (startScriptOf server)]\<rparr>))))"

text \<open>
  One request served with nothing else scheduled in between. The timer resumes the
  handler no earlier than 2000 ms after it was set; \<open>late\<close> is by how much later.
\<close>

definition restart :: "string \<Rightarrow> nat \<Rightarrow> env \<Rightarrow> daemon \<Rightarrow> response \<times> daemon" where
  "restart sid late e s =
    (if activeServers s sid \<noteq> None
     then restart_resume sid e (elapse (2000 + late) (restart_killed sid (restart_begin sid s)))
     else restart_resume sid e s)"

subsection \<open>The pty's listeners\<close>

text \<open>The pty of the process object \<open>ref\<close> delivers a chunk of output.\<close>

definition ptyData :: "nat \<Rightarrow> string \<Rightarrow> daemon \<Rightarrow> daemon" where
  "ptyData ref chunk s =
    (case heap s ref of
       None \<Rightarrow> s
     | Some proc \<Rightarrow>
        (case onData proc of
           StartOnData \<Rightarrow>
             let pushed = logs proc @ [(clock s, chunk)];
                 kept = (if length pushed > 1000 then tl pushed else pushed)
             in s\<lparr>heap := (heap s)(ref \<mapsto> proc\<lparr>logs := kept\<rparr>),
                  journal := journal s @
                    [Emit (room (serverId proc)) (ConsoleOutput chunk (Some ''log'') (Some (clock s)))]\<rparr>
         | RestartOnData \<Rightarrow>
             s\<lparr>heap := (heap s)(ref \<mapsto> proc\<lparr>logs := logs proc @ [(clock s, chunk)]\<rparr>),
               journal := journal s @
                 [Emit (room (serverId proc)) (ConsoleOutput chunk None (Some (clock s)))]\<rparr>))"

fun ptyDataAll :: "nat \<Rightarrow> string list \<Rightarrow> daemon \<Rightarrow> daemon" where
  "ptyDataAll ref [] s = s"
| "ptyDataAll ref (chunk # chunks) s = ptyDataAll ref chunks (ptyData ref chunk s)"

text \<open>The pty of the process object \<open>ref\<close> reports that its process has exited.\<close>

definition ptyExit :: "nat \<Rightarrow> int \<Rightarrow> int option \<Rightarrow> daemon \<Rightarrow> daemon" where
  "ptyExit ref exitCode sig s =
    (case heap s ref of
       None \<Rightarrow> s
     | Some proc \<Rightarrow>
        let s1 = s\<lparr>alive := alive s - {ref}\<rparr>
        in (case onExit proc of
              None \<Rightarrow> s1
            | Some StartOnExit \<Rightarrow>
                s1\<lparr>activeServers := (activeServers s1)(serverId proc := None),
                   journal := journal s1 @
                     [Emit (room (serverId proc)) (ServerStopped exitCode sig)]\<rparr>))"

subsection \<open>\<open>GET /instances/:id\<close>\<close>

text \<open>
  The status of an instance: \<open>running\<close> exactly when the registry has an entry. The
  response's \<open>uptime\<close> is the difference returned here, in milliseconds, divided by 1000.
  The handler has no \<open>try\<close>: the throw on an undefined \<open>config.servers\<close> is answered by
  express with its error page.
\<close>

definition getInstance :: "string \<Rightarrow> daemon \<Rightarrow> response" where
  "getInstance sid s =
    (case servers s of
       None \<Rightarrow> Html_error 500
     | Some tbl \<Rightarrow>
        (case lookupServer tbl sid of
           Absent \<Rightarrow> Json_error 404 ''Server not found''
         | found \<Rightarrow>
            let fields = (case found of Own server \<Rightarrow> Some server | _ \<Rightarrow> None)
            in (case activeServers s sid of
                  None \<Rightarrow> Json_instance fields ''stopped'' None 0
                | Some ref \<Rightarrow>
                   Json_instance fields ''running'' (map_option pid (heap s ref))
                     (case heap s ref of
                        None \<Rightarrow> 0
                      | Some proc \<Rightarrow> int (clock s) - int (startTime proc)))))"

definition isRunning :: "response \<Rightarrow> bool" where
  "isRunning r = (case r of Json_instance server st p up \<Rightarrow> st = ''running'' | _ \<Rightarrow> False)"

text \<open>The terminal events in a journal: the \<open>server_stopped\<close> emissions to a room.\<close>

fun terminalEvents :: "string \<Rightarrow> effect list \<Rightarrow> event list" where
  "terminalEvents r [] = []"
| "terminalEvents r (Emit r' (ServerStopped c g) # effects) =
     (if r' = r then ServerStopped c g # terminalEvents r effects else terminalEvents r effects)"
| "terminalEvents r (other # effects) = terminalEvents r effects"

subsection \<open>The \<open>join-server\<close> message of a socket\<close>

text \<open>\<open>Array.prototype.slice(i)\<close>: a negative \<open>i\<close> counts from the end.\<close>

definition slice_from :: "'a list \<Rightarrow> int \<Rightarrow> 'a list" where
  "slice_from xs i =
     (let n = int (length xs);
          k = (if i < 0 then max (n + i) 0 else min i n)
      in drop (nat k) xs)"

text \<open>The two system messages; their first character is a symbol outside ASCII, in UTF-8.\<close>

definition CONNECTED :: string where
  "CONNECTED = [CHR 0xE2, CHR 0x9C, CHR 0x85] @ '' Connected to server console (Real-time)'' @ [CHR 0x0A]"

definition NOT_RUNNING :: string where
  "NOT_RUNNING = [CHR 0xE2, CHR 0x9A, CHR 0xA0, CHR 0xEF, CHR 0xB8, CHR 0x8F]
     @ '' Server is not running. Start it to see live logs.'' @ [CHR 0x0A]"

text \<open>
  The socket joins the room; the result lists what \<open>socket.emit\<close> sends to this socket,
  in order.
\<close>

definition joinServer :: "nat \<Rightarrow> string \<Rightarrow> daemon \<Rightarrow> event list \<times> daemon" where
  "joinServer sock sid s =
    (let s1 = s\<lparr>rooms := insert (sock, room sid) (rooms s)\<rparr>;
         running = (case activeServers s sid of None \<Rightarrow> None | Some ref \<Rightarrow> heap s ref)
     in case running of
          Some proc \<Rightarrow>
            (map (\<lambda>(t, d). ConsoleOutput d (Some ''log'') (Some t)) (slice_from (logs proc) (- 50))
               @ [ConsoleOutput CONNECTED (Some ''system'') None], s1)
        | None \<Rightarrow> ([ConsoleOutput NOT_RUNNING (Some ''system'') None], s1))"

subsection \<open>The other routes that change the registry or \<open>config.servers\<close>\<close>

text \<open>
  \<open>POST /instances/:id/stop\<close>: one turn that signals the process, and the kill callback,
  which deletes the registry entry.
\<close>

definition stop :: "string \<Rightarrow> daemon \<Rightarrow> response \<times> daemon" where
  "stop sid s =
    (case activeServers s sid of
       None \<Rightarrow> (Json_error 400 ''Server not running'', s)
     | Some ref \<Rightarrow>
        (case heap s ref of
           None \<Rightarrow> (Json_error 400 ''Server not running'', s)
         | Some proc \<Rightarrow> (Json_ok, s\<lparr>journal := journal s @ [Kill (pid proc) SIGTERM]\<rparr>)))"

definition stop_killed :: "string \<Rightarrow> daemon \<Rightarrow> daemon" where
  "stop_killed sid s = s\<lparr>activeServers := (activeServers s)(sid := None)\<rparr>"

text \<open>
  \<open>DELETE /instances/:id\<close>. \<open>rmError\<close> is the message of a throw by \<open>fs.rmSync\<close> on the
  instance directory; for an inherited value there is no directory, \<open>fs.existsSync\<close>
  answers false and nothing is removed.
\<close>

definition deleteInstance :: "string \<Rightarrow> string option \<Rightarrow> string option \<Rightarrow> daemon \<Rightarrow> response \<times> daemon" where
  "deleteInstance sid rmError saveErr s =
    (case servers s of
       None \<Rightarrow> (Json_error 500 (readingUndefined sid), s)
     | Some tbl \<Rightarrow>
        (case lookupServer tbl sid of
           Absent \<Rightarrow> (Json_error 404 ''Server not found'', s)
         | found \<Rightarrow>
            let s1 = (case activeServers s sid of
                        None \<Rightarrow> s
                      | Some ref \<Rightarrow>
                         (case heap s ref of
                            None \<Rightarrow> s
                          | Some proc \<Rightarrow>
                              s\<lparr>activeServers := (activeServers s)(sid := None),
                                journal := journal s @ [Kill (pid proc) SIGKILL]\<rparr>))
            in (case (if found = Inherited then None else rmError) of
                  Some msg \<Rightarrow> (Json_error 500 msg, s1)
                | None \<Rightarrow>
                   let tbl' = tbl(sid := None);
                       s2 = s1\<lparr>servers := Some tbl', journal := journal s1 @ [SaveConfig]\<rparr>
                   in (case saveErr of
                         Some msg \<Rightarrow> (Json_error 500 msg, s2)
                       | None \<Rightarrow> (Json_ok, s2\<lparr>disk := Some tbl'\<rparr>)))))"

text \<open>
  \<open>POST /instances/:id/change-version\<close>, as far as the registry goes: a running process
  is signalled and its entry deleted at once; the fields of the configuration entry
  that the route rewrites are not among those kept here. \<open>failure\<close> is the message of a
  throw by the script generation or by \<open>fs\<close> after that; on an inherited value the
  assignment to \<open>server.environment.VERSION\<close> throws.
\<close>

definition settingUndefined :: string where
  "settingUndefined =
     ''Cannot set properties of undefined (setting '' @ [CHR 0x27] @ ''VERSION'' @ [CHR 0x27] @ '')''"

definition changeVersion :: "string \<Rightarrow> string option \<Rightarrow> daemon \<Rightarrow> response \<times> daemon" where
  "changeVersion sid failure s =
    (case servers s of
       None \<Rightarrow> (Json_error 500 (readingUndefined sid), s)
     | Some tbl \<Rightarrow>
        (case lookupServer tbl sid of
           Absent \<Rightarrow> (Json_error 404 ''Server not found'', s)
         | found \<Rightarrow>
            let s1 = (case activeServers s sid of
                        None \<Rightarrow> s
                      | Some ref \<Rightarrow>
                         (case heap s ref of
                            None \<Rightarrow> s
                          | Some proc \<Rightarrow>
                              s\<lparr>activeServers := (activeServers s)(sid := None),
                                journal := journal s @ [Kill (pid proc) SIGTERM]\<rparr>))
            in (case (if found = Inherited then Some settingUndefined else failure) of
                  Some msg \<Rightarrow> (Json_error 500 msg, s1)
                | None \<Rightarrow> (Json_ok, s1\<lparr>disk := Some tbl, journal := journal s1 @ [SaveConfig]\<rparr>))))"

text \<open>
  \<open>POST /instances/create\<close>, from the point where the entry is stored: \<open>sid\<close> is the
  fresh identifier drawn by \<open>uuidv4\<close>, and \<open>config.servers\<close> is created if it is missing.
\<close>

definition createInstance :: "string \<Rightarrow> string \<Rightarrow> string option \<Rightarrow> daemon \<Rightarrow> response \<times> daemon" where
  "createInstance sid serverDir saveErr s =
    (let tbl = (case servers s of None \<Rightarrow> Map.empty | Some t \<Rightarrow> t);
         tbl' = tbl(sid \<mapsto> \<lparr>directory = serverDir, lastStarted = None\<rparr>);
         s1 = s\<lparr>servers := Some tbl', journal := journal s @ [SaveConfig]\<rparr>
     in (case saveErr of
           Some msg \<Rightarrow> (Json_error 500 msg, s1)
         | None \<Rightarrow> (Json_ok, s1\<lparr>disk := Some tbl'\<rparr>)))"

subsection \<open>The states the daemon reaches\<close>

text \<open>
  The state after \<open>server.js\<close> has loaded: \<open>config\<close> is the parsed document when the file
  exists, so \<open>config.servers\<close> is whatever that document holds, and the registry is empty.
\<close>

definition boot :: "(string \<rightharpoonup> server_config) option \<Rightarrow> nat \<Rightarrow> daemon" where
  "boot loaded now =
     \<lparr>servers = loaded, disk = loaded, activeServers = Map.empty, heap = Map.empty,
      nextRef = 0, alive = {}, clock = now, journal = [], rooms = {}\<rparr>"

text \<open>
  The turns of the event loop that change the state: a handler up to its next \<open>await\<close>, a
  callback, a listener, time passing, the wall clock being set.
\<close>

datatype turn =
    Elapse nat
  | SetClock nat
  | Start string env
  | RestartBegin string
  | RestartKilled string
  | RestartResume string env
  | PtyData nat string
  | PtyExit nat int "int option"
  | JoinServer nat string
  | Stop string
  | StopKilled string
  | DeleteInstance string "string option" "string option"
  | ChangeVersion string "string option"
  | CreateInstance string string "string option"

fun perform :: "turn \<Rightarrow> daemon \<Rightarrow> daemon" where
  "perform (Elapse d) s = elapse d s"
| "perform (SetClock t) s = setClock t s"
| "perform (Start sid e) s = snd (start sid e s)"
| "perform (RestartBegin sid) s = restart_begin sid s"
| "perform (RestartKilled sid) s = restart_killed sid s"
| "perform (RestartResume sid e) s = snd (restart_resume sid e s)"
| "perform (PtyData ref chunk) s = ptyData ref chunk s"
| "perform (PtyExit ref exitCode sig) s = ptyExit ref exitCode sig s"
| "perform (JoinServer sock sid) s = snd (joinServer sock sid s)"
| "perform (Stop sid) s = snd (stop sid s)"
| "perform (StopKilled sid) s = stop_killed sid s"
| "perform (DeleteInstance sid rmError saveErr) s = snd (deleteInstance sid rmError saveErr s)"
| "perform (ChangeVersion sid failure) s = snd (changeVersion sid failure s)"
| "perform (CreateInstance sid serverDir saveErr) s = snd (createInstance sid serverDir saveErr s)"


text \<open>
  The states the daemon reaches. A callback or a resumed handler is allowed at any
  time, which is more than the event loop allows, so what holds of these states holds
  of the daemon's.
\<close>

inductive reachable :: "daemon \<Rightarrow> bool" where
  boot: "reachable (boot loaded now)"
| turn: "reachable s \<Longrightarrow> reachable (perform t s)"

text \<open>
  What is kept: a process object has a reference below \<open>nextRef\<close>, and a registered
  identifier points to a process object and has an entry of its own in \<open>config.servers\<close>.
\<close>

definition consistent :: "daemon \<Rightarrow> bool" where
  "consistent s \<longleftrightarrow>
     (\<forall>ref proc. heap s ref = Some proc \<longrightarrow> ref < nextRef s)
   \<and> (\<forall>sid ref. activeServers s sid = Some ref \<longrightarrow>
         heap s ref \<noteq> None \<and> (\<exists>tbl. servers s = Some tbl \<and> tbl sid \<noteq> None))"

subsection \<open>A restart request with other turns in between\<close>




subsection \<open>The states used as examples\<close>

text \<open>A document with one instance \<open>a\<close> that was never started.\<close>

definition oneInstance :: "(string \<rightharpoonup> server_config) option" where
  "oneInstance = Some [''a'' \<mapsto> \<lparr>directory = ''/srv/servers/minecraft/a'', lastStarted = None\<rparr>]"

text \<open>A turn in which \<open>pty.spawn\<close> returns a pty with the given pid and the save succeeds.\<close>

definition spawns :: "nat \<Rightarrow> env" where
  "spawns p = \<lparr>spawned = Inr p, saveError = None\<rparr>"

text \<open>Instance \<open>a\<close> started at time 1000 (process object 0, pid 101), a minute later.\<close>

definition runningA :: daemon where
  "runningA = elapse 60000 (snd (start ''a'' (spawns 101) (boot oneInstance 1000)))"

text \<open>The same after its pty has delivered three chunks.\<close>

definition chattyA :: daemon where
  "chattyA = ptyDataAll 0 [''Starting'', ''Loading'', ''Done''] runningA"

text \<open>Instance \<open>a\<close> brought up by a restart request at time 5000 (process object 0, pid 4242).\<close>

definition restartedA :: daemon where
  "restartedA = snd (restart ''a'' 0 (spawns 4242) (boot oneInstance 5000))"

text \<open>
  A schedule of the event loop on one identifier. Instance \<open>a\<close> is started (process object
  0). A restart request arrives: its first turn signals the process, its second turn is
  the kill callback, which clears the registry entry and sets the 2000 ms timer. The old
  process exits. Half a second later, while the timer is pending, a start request
  arrives and is served (\<open>raceStart\<close>). When the timer fires, the restart handler resumes
  (\<open>raceResume\<close>).
\<close>

definition raceWindow :: daemon where
  "raceWindow =
     elapse 500
       (ptyExit 0 143 None
         (restart_killed ''a''
           (restart_begin ''a''
             runningA)))"

definition raceStart :: "response \<times> daemon" where
  "raceStart = start ''a'' (spawns 102) raceWindow"

definition raceResume :: "response \<times> daemon" where
  "raceResume = restart_resume ''a'' (spawns 103) (elapse 1500 (snd raceStart))"

section \<open>File routes and the containment check\<close>

text \<open>
  The file system as far as the two routes see it: the regular files, each under its
  resolved path. A directory is there when a file lies below it, so \<open>mkdirSync\<close> with
  \<open>recursive\<close> leaves the model unchanged. A call into \<open>fs\<close> that throws is an input of
  the turn (\<open>fsError\<close>).
\<close>

type_synonym files = "(string \<times> string) list"

definition below :: "string \<Rightarrow> string \<Rightarrow> bool" where
  "below dir p = (if dir = ''/'' then p \<noteq> ''/'' else startsWith p (dir @ ''/''))"

definition insideDir :: "string \<Rightarrow> string \<Rightarrow> bool" where
  "insideDir dir p = (p = dir \<or> below dir p)"

definition isFile :: "files \<Rightarrow> string \<Rightarrow> bool" where
  "isFile fs p = (map_of fs p \<noteq> None)"

definition isDirectory :: "files \<Rightarrow> string \<Rightarrow> bool" where
  "isDirectory fs p = (\<not> isFile fs p \<and> list_ex (\<lambda>(q, c). below p q) fs)"

definition existsSync :: "files \<Rightarrow> string \<Rightarrow> bool" where
  "existsSync fs p = (isFile fs p \<or> isDirectory fs p)"

definition writeFileSync :: "files \<Rightarrow> string \<Rightarrow> string \<Rightarrow> files" where
  "writeFileSync fs p content = (p, content) # filter (\<lambda>(q, c). q \<noteq> p) fs"

definition unlinkSync :: "files \<Rightarrow> string \<Rightarrow> files" where
  "unlinkSync fs p = filter (\<lambda>(q, c). q \<noteq> p) fs"

definition rmSync :: "files \<Rightarrow> string \<Rightarrow> files" where
  "rmSync fs p = filter (\<lambda>(q, c). \<not> insideDir p q) fs"

datatype file_response =
    File_ok
  | File_error nat string

subsection \<open>\<open>POST /instances/:id/files/write\<close>\<close>

definition filesWrite ::
  "(string \<rightharpoonup> server_config) option \<Rightarrow> string \<Rightarrow> string option
     \<Rightarrow> string \<Rightarrow> string \<Rightarrow> string \<Rightarrow> files \<Rightarrow> file_response \<times> files" where
  "filesWrite tbls cwd fsError sid filePath content fs =
    (case tbls of
       None \<Rightarrow> (File_error 500 (readingUndefined sid), fs)
     | Some tbl \<Rightarrow>
        (case lookupServer tbl sid of
           Absent \<Rightarrow> (File_error 404 ''Server not found'', fs)
         | Inherited \<Rightarrow> (File_error 500 pathArgumentUndefined, fs)
         | Own server \<Rightarrow>
            let fullPath = path_join (directory server) filePath
            in (case fsError of
                  Some msg \<Rightarrow> (File_error 500 msg, fs)
                | None \<Rightarrow> (File_ok, writeFileSync fs (path_resolve cwd fullPath) content))))"

subsection \<open>\<open>POST /instances/:id/files/delete\<close>\<close>

definition filesDelete ::
  "(string \<rightharpoonup> server_config) option \<Rightarrow> string \<Rightarrow> string option
     \<Rightarrow> string \<Rightarrow> string \<Rightarrow> bool \<Rightarrow> files \<Rightarrow> file_response \<times> files" where
  "filesDelete tbls cwd fsError sid filePath force fs =
    (case tbls of
       None \<Rightarrow> (File_error 500 (readingUndefined sid), fs)
     | Some tbl \<Rightarrow>
        (case lookupServer tbl sid of
           Absent \<Rightarrow> (File_error 404 ''Server not found'', fs)
         | Inherited \<Rightarrow> (File_error 500 pathArgumentUndefined, fs)
         | Own server \<Rightarrow>
            let fullPath = path_join (directory server) filePath;
                serverDir = path_resolve cwd (directory server);
                requestedPath = path_resolve cwd fullPath
            in if \<not> startsWith requestedPath serverDir then (File_error 403 ''Access denied'', fs)
               else if \<not> existsSync fs requestedPath then (File_error 404 ''File not found'', fs)
               else
                 (case fsError of
                    Some msg \<Rightarrow> (File_error 500 msg, fs)
                  | None \<Rightarrow>
                     if isDirectory fs requestedPath then
                       (if list_ex (\<lambda>(q, c). below requestedPath q) fs \<and> \<not> force
                        then (File_error 400 ''Directory is not empty'', fs)
                        else (File_ok, rmSync fs requestedPath))
                     else (File_ok, unlinkSync fs requestedPath))))"

text \<open>
  A file in a directory next to the directory of instance \<open>a\<close>, whose name begins with
  the name of that directory.
\<close>

definition backupFiles :: files where
  "backupFiles = [(''/srv/servers/minecraft/a-backup/world.dat'', ''w'')]"

section \<open>Properties of the runtime matrix\<close>

lemma startsWith_shorter:
  "startsWith v a \<Longrightarrow> startsWith v b \<Longrightarrow> length a \<le> length b \<Longrightarrow> startsWith b a"
  unfolding startsWith_def
proof -
  assume a: "take (length a) v = a" and b: "take (length b) v = b"
    and le: "length a \<le> length b"
  have "take (length a) b = take (length a) (take (length b) v)" using b by simp
  also have "\<dots> = take (length a) v" using le by (simp add: min_def)
  finally show "take (length a) b = a" using a by simp
qed

lemma firstPrefixEntry_no_match:
  "\<forall>(k, j) \<in> set tbl. \<not> startsWith v k \<Longrightarrow> firstPrefixEntry tbl v = 17"
  by (induction tbl) auto

lemma firstPrefixEntry_longest:
  assumes "prefixOrdered tbl" and "distinct (map fst tbl)"
    and "(k, j) \<in> set tbl" and "startsWith v k"
    and "\<forall>(k', j') \<in> set tbl. startsWith v k' \<longrightarrow> length k' \<le> length k"
  shows "firstPrefixEntry tbl v = j"
  using assms
proof (induction tbl)
  case Nil
  then show ?case by simp
next
  case (Cons e tbl)
  obtain k0 j0 where e: "e = (k0, j0)" by (cases e)
  show ?case
  proof (cases "startsWith v k0")
    case hit: True
    have "k0 = k"
    proof (cases "(k, j) = (k0, j0)")
      case True
      then show ?thesis by simp
    next
      case False
      with Cons.prems(3) e have later: "(k, j) \<in> set tbl" by auto
      from Cons.prems(5) e hit have "length k0 \<le> length k" by auto
      with hit Cons.prems(4) have "startsWith k k0" by (rule startsWith_shorter)
      moreover from Cons.prems(1) e later have "\<not> (startsWith k k0 \<and> k \<noteq> k0)"
        by (auto simp: list_all_iff)
      ultimately show ?thesis by simp
    qed
    moreover from Cons.prems(2,3) e \<open>k0 = k\<close> have "j0 = j"
      by (auto simp: image_iff)
    ultimately show ?thesis using e hit by simp
  next
    case miss: False
    with Cons.prems(3,4) e have later: "(k, j) \<in> set tbl" by auto
    from Cons.prems e have "prefixOrdered tbl" "distinct (map fst tbl)"
      "\<forall>(k', j') \<in> set tbl. startsWith v k' \<longrightarrow> length k' \<le> length k"
      by auto
    with Cons.IH later Cons.prems(4) have "firstPrefixEntry tbl v = j" by blast
    with e miss show ?thesis by simp
  qed
qed

lemma firstPrefixEntry_is_longest:
  assumes "prefixOrdered tbl" and "\<exists>(k, j) \<in> set tbl. startsWith v k"
  shows "\<exists>(k, j) \<in> set tbl. startsWith v k
           \<and> (\<forall>(k', j') \<in> set tbl. startsWith v k' \<longrightarrow> length k' \<le> length k)
           \<and> firstPrefixEntry tbl v = j"
  using assms
proof (induction tbl)
  case Nil
  then show ?case by simp
next
  case (Cons e tbl)
  obtain k0 j0 where e: "e = (k0, j0)" by (cases e)
  show ?case
  proof (cases "startsWith v k0")
    case hit: True
    have "length k' \<le> length k0" if "(k', j') \<in> set tbl" and m: "startsWith v k'" for k' j'
    proof (rule ccontr)
      assume "\<not> length k' \<le> length k0"
      then have lt: "length k0 < length k'" by simp
      then have le: "length k0 \<le> length k'" by simp
      from hit m le have "startsWith k' k0" by (rule startsWith_shorter)
      moreover from lt have "k' \<noteq> k0" by auto
      moreover from Cons.prems(1) e that(1) have "\<not> (startsWith k' k0 \<and> k' \<noteq> k0)"
        by (auto simp: list_all_iff)
      ultimately show False by simp
    qed
    with hit e show ?thesis by auto
  next
    case miss: False
    with Cons.prems(2) e have "\<exists>(k, j) \<in> set tbl. startsWith v k" by auto
    moreover from Cons.prems(1) e have "prefixOrdered tbl" by simp
    ultimately obtain k j where
      kj: "(k, j) \<in> set tbl" "startsWith v k"
        "\<forall>(k', j') \<in> set tbl. startsWith v k' \<longrightarrow> length k' \<le> length k"
        "firstPrefixEntry tbl v = j"
      using Cons.IH by blast
    with e miss show ?thesis by auto
  qed
qed

lemma JAVA_VERSION_MAP_prefixOrdered: "prefixOrdered JAVA_VERSION_MAP"
  by (simp add: JAVA_VERSION_MAP_def startsWith_def)

lemma JAVA_VERSION_MAP_distinct: "distinct (map fst JAVA_VERSION_MAP)"
  by (simp add: JAVA_VERSION_MAP_def)

text \<open>
  C8. For every version string, \<open>getRequiredJavaVersion\<close> returns the value of the
  longest key of the runtime matrix that is a prefix of the string, and 17 when no key
  is a prefix; the matrix associates 21 with 1.21 and 1.20.5, 17 with 1.20.4, 1.20,
  1.19, 1.18 and 1.17, 11 with 1.16 to 1.13, and 8 with 1.12.
\<close>

theorem getRequiredJavaVersion_longest_prefix:
  "(\<forall>k j. (k, j) \<in> set JAVA_VERSION_MAP \<and> startsWith v k
        \<and> (\<forall>(k', j') \<in> set JAVA_VERSION_MAP. startsWith v k' \<longrightarrow> length k' \<le> length k)
        \<longrightarrow> getRequiredJavaVersion v = j)
   \<and> ((\<forall>(k, j) \<in> set JAVA_VERSION_MAP. \<not> startsWith v k) \<longrightarrow> getRequiredJavaVersion v = 17)
   \<and> ((\<exists>(k, j) \<in> set JAVA_VERSION_MAP. startsWith v k
          \<and> (\<forall>(k', j') \<in> set JAVA_VERSION_MAP. startsWith v k' \<longrightarrow> length k' \<le> length k)
          \<and> getRequiredJavaVersion v = j)
      \<or> ((\<forall>(k, j) \<in> set JAVA_VERSION_MAP. \<not> startsWith v k) \<and> getRequiredJavaVersion v = 17))
   \<and> map_of JAVA_VERSION_MAP =
       [''1.21'' \<mapsto> 21, ''1.20.5'' \<mapsto> 21,
        ''1.20.4'' \<mapsto> 17, ''1.20'' \<mapsto> 17, ''1.19'' \<mapsto> 17, ''1.18'' \<mapsto> 17, ''1.17'' \<mapsto> 17,
        ''1.16'' \<mapsto> 11, ''1.15'' \<mapsto> 11, ''1.14'' \<mapsto> 11, ''1.13'' \<mapsto> 11,
        ''1.12'' \<mapsto> 8]"
proof (intro conjI allI impI)
  fix k j
  assume "(k, j) \<in> set JAVA_VERSION_MAP \<and> startsWith v k
        \<and> (\<forall>(k', j') \<in> set JAVA_VERSION_MAP. startsWith v k' \<longrightarrow> length k' \<le> length k)"
  then show "getRequiredJavaVersion v = j"
    unfolding getRequiredJavaVersion_def
    using firstPrefixEntry_longest [OF JAVA_VERSION_MAP_prefixOrdered JAVA_VERSION_MAP_distinct]
    by blast
next
  assume "\<forall>(k, j) \<in> set JAVA_VERSION_MAP. \<not> startsWith v k"
  then show "getRequiredJavaVersion v = 17"
    unfolding getRequiredJavaVersion_def by (rule firstPrefixEntry_no_match)
next
  show "(\<exists>(k, j) \<in> set JAVA_VERSION_MAP. startsWith v k
          \<and> (\<forall>(k', j') \<in> set JAVA_VERSION_MAP. startsWith v k' \<longrightarrow> length k' \<le> length k)
          \<and> getRequiredJavaVersion v = j)
      \<or> ((\<forall>(k, j) \<in> set JAVA_VERSION_MAP. \<not> startsWith v k) \<and> getRequiredJavaVersion v = 17)"
  proof (cases "\<exists>(k, j) \<in> set JAVA_VERSION_MAP. startsWith v k")
    case True
    from firstPrefixEntry_is_longest [OF JAVA_VERSION_MAP_prefixOrdered True]
    show ?thesis unfolding getRequiredJavaVersion_def by (rule disjI1)
  next
    case False
    then have none: "\<forall>(k, j) \<in> set JAVA_VERSION_MAP. \<not> startsWith v k" by auto
    then have "getRequiredJavaVersion v = 17"
      unfolding getRequiredJavaVersion_def by (rule firstPrefixEntry_no_match)
    with none show ?thesis by (intro disjI2 conjI)
  qed
next
  show "map_of JAVA_VERSION_MAP =
       [''1.21'' \<mapsto> 21, ''1.20.5'' \<mapsto> 21,
        ''1.20.4'' \<mapsto> 17, ''1.20'' \<mapsto> 17, ''1.19'' \<mapsto> 17, ''1.18'' \<mapsto> 17, ''1.17'' \<mapsto> 17,
        ''1.16'' \<mapsto> 11, ''1.15'' \<mapsto> 11, ''1.14'' \<mapsto> 11, ''1.13'' \<mapsto> 11,
        ''1.12'' \<mapsto> 8]"
    by (rule ext) (simp add: JAVA_VERSION_MAP_def)
qed

theorem getRequiredJavaVersion_longest_prefix_witness:
  "map fst (filter (\<lambda>(k, j). startsWith ''1.20.4-rc1'' k) JAVA_VERSION_MAP) = [''1.20.4'', ''1.20'']
   \<and> (''1.20.4'', 17) \<in> set JAVA_VERSION_MAP
   \<and> getRequiredJavaVersion ''1.20.4-rc1'' = 17
   \<and> filter (\<lambda>(k, j). startsWith ''1.8.9'' k) JAVA_VERSION_MAP = []
   \<and> getRequiredJavaVersion ''1.8.9'' = 17"
proof -
  have h1: "(''1.20.4'', 17) \<in> set JAVA_VERSION_MAP \<and> startsWith ''1.20.4-rc1'' ''1.20.4''
      \<and> (\<forall>(k', j') \<in> set JAVA_VERSION_MAP.
            startsWith ''1.20.4-rc1'' k' \<longrightarrow> length k' \<le> length ''1.20.4'')"
    by (simp add: JAVA_VERSION_MAP_def startsWith_def)
  have h2: "\<forall>(k, j) \<in> set JAVA_VERSION_MAP. \<not> startsWith ''1.8.9'' k"
    by (simp add: JAVA_VERSION_MAP_def startsWith_def)
  from h1 getRequiredJavaVersion_longest_prefix [of "''1.20.4-rc1''"]
  have "getRequiredJavaVersion ''1.20.4-rc1'' = 17" by blast
  moreover from h2 getRequiredJavaVersion_longest_prefix [of "''1.8.9''"]
  have "getRequiredJavaVersion ''1.8.9'' = 17" by blast
  moreover
  have "map fst (filter (\<lambda>(k, j). startsWith ''1.20.4-rc1'' k) JAVA_VERSION_MAP)
          = [''1.20.4'', ''1.20'']"
    "filter (\<lambda>(k, j). startsWith ''1.8.9'' k) JAVA_VERSION_MAP = []"
    by (simp_all add: JAVA_VERSION_MAP_def startsWith_def)
  ultimately show ?thesis using h1 by blast
qed

section \<open>Properties of the authentication middleware\<close>

text \<open>
  C9. When the configured node key is absent or empty, \<open>authMiddleware\<close> passes every
  request on, whatever its Authorization and x-api-key headers are; a request is answered
  401 Unauthorized only when a non-empty node key is configured and neither header
  matches it (Authorization as \<open>Bearer\<close> followed by the key, x-api-key as the key).
\<close>

theorem authMiddleware_open_without_key:
  "((nodeKey = None \<or> nodeKey = Some []) \<longrightarrow> authMiddleware nodeKey req = Next)
   \<and> (authMiddleware nodeKey req = Unauthorized \<longleftrightarrow>
        (\<exists>key. nodeKey = Some key \<and> key \<noteq> []
           \<and> authorization req \<noteq> Some (''Bearer '' @ key)
           \<and> x_api_key req \<noteq> Some key))"
  by (cases nodeKey) (auto simp: authMiddleware_def falsyKey_def)

theorem authMiddleware_open_without_key_witness:
  "authMiddleware None \<lparr>authorization = Some ''Bearer guess'', x_api_key = None\<rparr> = Next
   \<and> authMiddleware (Some []) \<lparr>authorization = None, x_api_key = Some ''guess''\<rparr> = Next
   \<and> authMiddleware (Some ''k1'') \<lparr>authorization = Some ''Bearer k2'', x_api_key = None\<rparr>
       = Unauthorized"
proof -
  have "authMiddleware None \<lparr>authorization = Some ''Bearer guess'', x_api_key = None\<rparr> = Next"
    using authMiddleware_open_without_key
      [of None "\<lparr>authorization = Some ''Bearer guess'', x_api_key = None\<rparr>"]
    by simp
  moreover
  have "authMiddleware (Some []) \<lparr>authorization = None, x_api_key = Some ''guess''\<rparr> = Next"
    using authMiddleware_open_without_key
      [of "Some []" "\<lparr>authorization = None, x_api_key = Some ''guess''\<rparr>"]
    by simp
  moreover
  have "authMiddleware (Some ''k1'') \<lparr>authorization = Some ''Bearer k2'', x_api_key = None\<rparr>
       = Unauthorized"
    using authMiddleware_open_without_key
      [of "Some ''k1''" "\<lparr>authorization = Some ''Bearer k2'', x_api_key = None\<rparr>"]
    by simp
  ultimately show ?thesis by simp
qed

section \<open>Properties of the process supervisor\<close>

lemmas path_defs = path_join_def path_resolve_def normalize_def normalizeString_def
  isAbsolute_def Let_def

lemmas supervisor_defs = boot_def oneInstance_def spawns_def start_def restart_def
  restart_begin_def restart_killed_def restart_resume_def elapse_def ptyExit_def ptyData_def
  getInstance_def isRunning_def room_def startScriptOf_def lookupServer_def path_defs

subsection \<open>What every reachable state satisfies\<close>

lemma consistent_boot: "consistent (boot loaded now)"
  by (simp add: consistent_def boot_def)

lemma consistent_elapse: "consistent s \<Longrightarrow> consistent (elapse d s)"
  by (simp add: consistent_def elapse_def)

lemma consistent_setClock: "consistent s \<Longrightarrow> consistent (setClock t s)"
  by (simp add: consistent_def setClock_def)

lemma lookupServer_Own: "lookupServer tbl sid = Own server \<longleftrightarrow> tbl sid = Some server"
  by (simp add: lookupServer_def split: option.splits)

lemma consistent_start: "consistent s \<Longrightarrow> consistent (snd (start sid e s))"
  unfolding consistent_def start_def Let_def
  by (auto split: option.splits property.splits sum.splits if_splits
        simp: less_Suc_eq lookupServer_Own)

lemma consistent_restart_begin: "consistent s \<Longrightarrow> consistent (restart_begin sid s)"
  unfolding consistent_def restart_begin_def
  by (auto split: option.splits)

lemma consistent_restart_killed: "consistent s \<Longrightarrow> consistent (restart_killed sid s)"
  unfolding consistent_def restart_killed_def
  by (auto split: if_splits)

lemma consistent_restart_resume: "consistent s \<Longrightarrow> consistent (snd (restart_resume sid e s))"
  unfolding consistent_def restart_resume_def Let_def
  by (auto split: option.splits property.splits sum.splits if_splits
        simp: less_Suc_eq lookupServer_Own)

lemma consistent_ptyData: "consistent s \<Longrightarrow> consistent (ptyData ref chunk s)"
  unfolding consistent_def ptyData_def Let_def
  by (auto split: option.splits onData_listener.splits if_splits)

lemma consistent_ptyExit: "consistent s \<Longrightarrow> consistent (ptyExit ref exitCode sig s)"
  unfolding consistent_def ptyExit_def Let_def
  by (auto split: option.splits onExit_listener.splits if_splits)

lemma consistent_joinServer: "consistent s \<Longrightarrow> consistent (snd (joinServer sock sid s))"
  unfolding consistent_def joinServer_def Let_def
  by (auto split: option.splits)

lemma consistent_stop: "consistent s \<Longrightarrow> consistent (snd (stop sid s))"
  unfolding consistent_def stop_def
  by (auto split: option.splits)

lemma consistent_stop_killed: "consistent s \<Longrightarrow> consistent (stop_killed sid s)"
  unfolding consistent_def stop_killed_def
  by (auto split: if_splits)

lemma consistent_deleteInstance:
  "consistent s \<Longrightarrow> consistent (snd (deleteInstance sid rmError saveErr s))"
  unfolding consistent_def deleteInstance_def Let_def
  by (auto split: option.splits property.splits if_splits) fastforce+

lemma consistent_changeVersion:
  "consistent s \<Longrightarrow> consistent (snd (changeVersion sid failure s))"
  unfolding consistent_def changeVersion_def Let_def
  by (auto split: option.splits property.splits if_splits)

lemma consistent_createInstance:
  "consistent s \<Longrightarrow> consistent (snd (createInstance sid serverDir saveErr s))"
  unfolding consistent_def createInstance_def Let_def
  by (auto split: option.splits if_splits)

lemma consistent_perform: "consistent s \<Longrightarrow> consistent (perform t s)"
  by (cases t)
     (simp_all add: consistent_elapse consistent_setClock consistent_start
        consistent_restart_begin consistent_restart_killed consistent_restart_resume
        consistent_ptyData consistent_ptyExit consistent_joinServer consistent_stop
        consistent_stop_killed consistent_deleteInstance consistent_changeVersion
        consistent_createInstance)

lemma reachable_consistent: "reachable s \<Longrightarrow> consistent s"
  by (induction rule: reachable.induct) (simp_all add: consistent_boot consistent_perform)






subsection \<open>The start route\<close>

text \<open>
  In every state the daemon reaches, the start route answers 400 for a registered
  identifier; when \<open>config.servers\<close> exists and answers nothing for the identifier, not
  even an inherited value, the route answers 404. Both leave the state as it is, and the
  route changes the registry only when the identifier has an entry of its own and is
  not registered.
\<close>

lemma start_guards:
  "(reachable s \<and> activeServers s sid \<noteq> None \<longrightarrow>
      start sid e s = (Json_error 400 ''Server already running'', s))
   \<and> (servers s = Some tbl \<and> lookupServer tbl sid = Absent \<longrightarrow>
      start sid e s = (Json_error 404 ''Server not found'', s))
   \<and> (activeServers (snd (start sid e s)) \<noteq> activeServers s \<longrightarrow>
      map_option (\<lambda>tbl. tbl sid = None) (servers s) = Some False \<and> activeServers s sid = None)"
proof (intro conjI impI)
  assume a: "reachable s \<and> activeServers s sid \<noteq> None"
  then have "consistent s" by (simp add: reachable_consistent)
  with a obtain tbl' server where "servers s = Some tbl'" "tbl' sid = Some server"
    unfolding consistent_def by fastforce
  with a show "start sid e s = (Json_error 400 ''Server already running'', s)"
    by (simp add: start_def lookupServer_def)
next
  assume "servers s = Some tbl \<and> lookupServer tbl sid = Absent"
  then show "start sid e s = (Json_error 404 ''Server not found'', s)"
    by (simp add: start_def)
next
  assume c: "activeServers (snd (start sid e s)) \<noteq> activeServers s"
  then show "map_option (\<lambda>tbl. tbl sid = None) (servers s) = Some False"
    by (auto simp: start_def Let_def lookupServer_Own
        split: option.splits property.splits sum.splits if_splits)
  from c show "activeServers s sid = None"
    by (auto simp: start_def Let_def split: option.splits property.splits sum.splits if_splits)
qed

text \<open>
  For a name inherited from \<open>Object.prototype\<close> the guard \<open>!server\<close> does not fire, and the
  route answers 500 with the message of \<open>path.join\<close>.
\<close>

lemma start_inherited_name:
  "start ''constructor'' e (boot oneInstance now) =
     (Json_error 500 pathArgumentUndefined, boot oneInstance now)"
  by (simp add: start_def boot_def oneInstance_def lookupServer_def objectPrototypeNames_def)

text \<open>What a successful start has done.\<close>

lemma start_success:
  assumes "start sid e s = (Json_pid p, s')"
  shows "\<exists>tbl server.
           servers s = Some tbl \<and> tbl sid = Some server \<and> activeServers s sid = None
         \<and> servers s' = Some (tbl(sid \<mapsto> server\<lparr>lastStarted := Some (clock s)\<rparr>))
         \<and> disk s' = servers s'
         \<and> activeServers s' = (activeServers s)(sid \<mapsto> nextRef s)
         \<and> heap s' = (heap s)(nextRef s \<mapsto>
               \<lparr>serverId = sid, pid = p, startTime = clock s, logs = [],
                onData = StartOnData, onExit = Some StartOnExit\<rparr>)
         \<and> journal s' = journal s @ [Spawn (startScriptOf server), SaveConfig]
         \<and> clock s' = clock s"
  using assms
  by (auto simp: start_def Let_def lookupServer_Own
      split: option.splits property.splits sum.splits if_splits)

text \<open>
  The start handler has no \<open>await\<close>: it is one turn, so of two start requests for one
  identifier the second is served in the state the first has left, and is refused.
\<close>

lemma start_twice:
  assumes "start sid e s = (Json_pid p, s')"
  shows "start sid e' s' = (Json_error 400 ''Server already running'', s')"
proof -
  from start_success [OF assms] obtain tbl server where
    "servers s' = Some (tbl(sid \<mapsto> server\<lparr>lastStarted := Some (clock s)\<rparr>))"
    "activeServers s' = (activeServers s)(sid \<mapsto> nextRef s)" by blast
  then show ?thesis by (simp add: start_def lookupServer_def)
qed

text \<open>
  C4. Start answers NotFound whenever the identifier has no configuration. The daemon is
  booted from a configuration document without a \<open>servers\<close> member, which is what
  \<open>configure.js\<close> writes on a fresh node; no instance is configured. A start request for
  \<open>a\<close> is answered with status 500 and the TypeError's message, not with 404.
\<close>

theorem start_without_servers_member:
  "start ''a'' (spawns 4242) (boot None 5000) =
     (Json_error 500 (readingUndefined ''a''), boot None 5000)
   \<and> Json_error 500 (readingUndefined ''a'') \<noteq> Json_error 404 ''Server not found''"
  by (simp add: start_def boot_def)

subsection \<open>Output and the log buffer\<close>

text \<open>
  The listener of the start route keeps at most 1000 records: a record that arrives at
  a full buffer is appended and the oldest one is dropped.
\<close>

lemma ptyData_start_bounded:
  assumes "heap s ref = Some proc" and "onData proc = StartOnData"
    and "length (logs proc) \<le> 1000"
  shows "\<exists>proc'. heap (ptyData ref chunk s) ref = Some proc'
           \<and> onData proc' = StartOnData
           \<and> length (logs proc') \<le> 1000
           \<and> logs proc' = (if length (logs proc) = 1000 then tl (logs proc) else logs proc)
                             @ [(clock s, chunk)]"
  using assms by (cases "logs proc") (auto simp: ptyData_def Let_def)

text \<open>
  Over any number of chunks the buffer of a process created by the start route is the
  last 1000 of what it held and what arrived, in order of arrival.
\<close>

lemma ptyData_clock: "clock (ptyData ref chunk s) = clock s"
  by (simp add: ptyData_def Let_def split: option.splits onData_listener.splits)

lemma fifo_step:
  assumes "length xs \<le> n" and "0 < n"
  shows "drop (length ((if length xs = n then tl xs else xs) @ [x]) + m - n)
              (((if length xs = n then tl xs else xs) @ [x]) @ zs)
         = drop (length xs + Suc m - n) (xs @ x # zs)"
proof (cases "length xs = n")
  case True
  with assms(2) obtain a t where xs: "xs = a # t" by (cases xs) auto
  with True have "length t + 1 = n" by simp
  then have n: "n = Suc (length t)" by simp
  show ?thesis unfolding xs n by simp
next
  case False
  then show ?thesis by simp
qed

lemma ptyDataAll_start_fifo:
  assumes "heap s ref = Some proc" and "onData proc = StartOnData"
    and "length (logs proc) \<le> 1000"
  shows "\<exists>proc'. heap (ptyDataAll ref chunks s) ref = Some proc'
           \<and> onData proc' = StartOnData
           \<and> length (logs proc') \<le> 1000
           \<and> logs proc' = drop (length (logs proc) + length chunks - 1000)
                               (logs proc @ map (\<lambda>c. (clock s, c)) chunks)"
  using assms
proof (induction chunks arbitrary: s proc)
  case Nil
  then show ?case by simp
next
  case (Cons c cs)
  let ?ys = "(if length (logs proc) = 1000 then tl (logs proc) else logs proc) @ [(clock s, c)]"
  let ?zs = "map (\<lambda>c. (clock s, c)) cs"
  from ptyData_start_bounded [OF Cons.prems, of c] obtain proc1 where
    p1: "heap (ptyData ref c s) ref = Some proc1" "onData proc1 = StartOnData"
      "length (logs proc1) \<le> 1000" "logs proc1 = ?ys"
    by blast
  from Cons.IH [OF p1(1,2,3)] obtain proc' where
    p': "heap (ptyDataAll ref cs (ptyData ref c s)) ref = Some proc'" "onData proc' = StartOnData"
      "length (logs proc') \<le> 1000"
      "logs proc' = drop (length (logs proc1) + length cs - 1000)
                      (logs proc1 @ map (\<lambda>c'. (clock (ptyData ref c s), c')) cs)"
    by blast
  from p'(4) have "logs proc' = drop (length ?ys + length cs - 1000) (?ys @ ?zs)"
    unfolding p1(4) ptyData_clock .
  also have "\<dots> = drop (length (logs proc) + Suc (length cs) - 1000)
                    (logs proc @ (clock s, c) # ?zs)"
    by (rule fifo_step) (use Cons.prems(3) in simp_all)
  finally have fin: "logs proc' = drop (length (logs proc) + length (c # cs) - 1000)
                       (logs proc @ map (\<lambda>c. (clock s, c)) (c # cs))"
    by (simp only: list.map length_Cons)
  show ?case unfolding ptyDataAll.simps
  proof (intro exI conjI)
    show "heap (ptyDataAll ref cs (ptyData ref c s)) ref = Some proc'" by (rule p'(1))
    show "onData proc' = StartOnData" by (rule p'(2))
    show "length (logs proc') \<le> 1000" by (rule p'(3))
    show "logs proc' = drop (length (logs proc) + length (c # cs) - 1000)
                       (logs proc @ map (\<lambda>c. (clock s, c)) (c # cs))" by (rule fin)
  qed
qed

text \<open>The listener of the restart route only appends.\<close>

lemma ptyData_restart_grows:
  assumes "heap s ref = Some proc" and "onData proc = RestartOnData"
  shows "\<exists>proc'. heap (ptyDataAll ref chunks s) ref = Some proc'
           \<and> onData proc' = RestartOnData
           \<and> length (logs proc') = length (logs proc) + length chunks"
  using assms
proof (induction chunks arbitrary: s proc)
  case Nil
  then show ?case by simp
next
  case (Cons c cs)
  let ?proc1 = "proc\<lparr>logs := logs proc @ [(clock s, c)]\<rparr>"
  from Cons.prems have h: "heap (ptyData ref c s) ref = Some ?proc1"
    by (simp add: ptyData_def)
  have "onData ?proc1 = RestartOnData" using Cons.prems by simp
  from Cons.IH [OF h this] show ?case by auto
qed

lemma restartedA_heap:
  "heap restartedA 0 =
     Some \<lparr>serverId = ''a'', pid = 4242, startTime = 5000, logs = [],
           onData = RestartOnData, onExit = None\<rparr>"
  by (simp add: restartedA_def supervisor_defs)

text \<open>
  C2. The log buffer of a running instance holds at most 1000 records on every path that
  creates a process. Instance \<open>a\<close> is brought up by a restart request and its pty delivers
  1001 chunks: the buffer of the registered process then holds 1001 records.
\<close>

theorem restart_logs_exceed_capacity:
  "activeServers (ptyDataAll 0 (replicate 1001 ''x'') restartedA) ''a'' = Some 0
   \<and> map_option (\<lambda>proc. length (logs proc))
        (heap (ptyDataAll 0 (replicate 1001 ''x'') restartedA) 0) = Some 1001"
proof
  have "activeServers (ptyDataAll 0 chunks s) = activeServers s" for chunks s
    by (induction chunks arbitrary: s)
       (auto simp: ptyData_def Let_def split: option.splits onData_listener.splits)
  then show "activeServers (ptyDataAll 0 (replicate 1001 ''x'') restartedA) ''a'' = Some 0"
    by (simp add: restartedA_def supervisor_defs)
  from ptyData_restart_grows [OF restartedA_heap, of "replicate 1001 ''x''"]
  show "map_option (\<lambda>proc. length (logs proc))
        (heap (ptyDataAll 0 (replicate 1001 ''x'') restartedA) 0) = Some 1001"
    by auto
qed

subsection \<open>Process exit\<close>

lemma terminalEvents_append:
  "terminalEvents r (xs @ ys) = terminalEvents r xs @ terminalEvents r ys"
  by (induction r xs rule: terminalEvents.induct) auto

text \<open>
  When a process created by the start route exits, its listener clears the registry
  entry and emits one \<open>server_stopped\<close> event to the instance's room, and the status route
  reports the instance as not running.
\<close>

lemma start_then_exit:
  assumes "start sid e s = (Json_pid p, s')"
  shows "activeServers (ptyExit (nextRef s) exitCode sig s') sid = None
       \<and> journal (ptyExit (nextRef s) exitCode sig s')
           = journal s' @ [Emit (room sid) (ServerStopped exitCode sig)]
       \<and> terminalEvents (room sid) (journal (ptyExit (nextRef s) exitCode sig s'))
           = terminalEvents (room sid) (journal s') @ [ServerStopped exitCode sig]
       \<and> \<not> isRunning (getInstance sid (ptyExit (nextRef s) exitCode sig s'))"
proof -
  from start_success [OF assms] obtain tbl server where
    h: "heap s' = (heap s)(nextRef s \<mapsto>
               \<lparr>serverId = sid, pid = p, startTime = clock s, logs = [],
                onData = StartOnData, onExit = Some StartOnExit\<rparr>)" by blast
  have x: "ptyExit (nextRef s) exitCode sig s' =
      s'\<lparr>alive := alive s' - {nextRef s}, activeServers := (activeServers s')(sid := None),
         journal := journal s' @ [Emit (room sid) (ServerStopped exitCode sig)]\<rparr>"
    using h by (simp add: ptyExit_def Let_def)
  show ?thesis unfolding x
    by (simp add: terminalEvents_append getInstance_def isRunning_def Let_def
        split: option.splits property.splits)
qed

text \<open>
  The pty spawned by the restart route has no exit listener: when its process exits,
  nothing but its liveness changes.
\<close>

lemma restart_resume_then_exit:
  assumes "restart_resume sid e s = (Json_pid p, s')"
  shows "ptyExit (nextRef s) exitCode sig s' = s'\<lparr>alive := alive s' - {nextRef s}\<rparr>"
  using assms
  by (auto simp: restart_resume_def ptyExit_def Let_def
      split: option.splits property.splits sum.splits)

text \<open>
  C3. Every exit of a running instance's process, also of one created by Restart, clears
  the registry entry, publishes one terminal event and makes Status report not running.
  Instance \<open>a\<close> is brought up by a restart request and its process exits with code 1: the
  process is no longer alive, the registry entry stays, no \<open>server_stopped\<close> event is
  emitted, and the status route still reports \<open>running\<close>.
\<close>

theorem restart_exit_unobserved:
  "0 \<notin> alive (ptyExit 0 1 None restartedA)
   \<and> activeServers (ptyExit 0 1 None restartedA) ''a'' = Some 0
   \<and> terminalEvents (room ''a'') (journal (ptyExit 0 1 None restartedA)) = []
   \<and> isRunning (getInstance ''a'' (ptyExit 0 1 None restartedA))"
  by (simp add: restartedA_def supervisor_defs)

subsection \<open>The last-started timestamp\<close>

text \<open>The restart route never writes \<open>config.servers\<close> and never saves.\<close>

lemma restart_keeps_config:
  "servers (snd (restart sid late e s)) = servers s
   \<and> disk (snd (restart sid late e s)) = disk s
   \<and> SaveConfig \<notin> set (drop (length (journal s)) (journal (snd (restart sid late e s))))"
  by (simp add: restart_def restart_begin_def restart_killed_def restart_resume_def elapse_def
      Let_def split: option.splits property.splits sum.splits)

text \<open>
  C6. Every successful start, also the one a restart performs, sets the instance's
  last-started timestamp and saves the configuration. Instance \<open>a\<close>, never started, is
  brought up by a restart request at time 5000: the request succeeds, \<open>lastStarted\<close> is
  still unset, and nothing was saved.
\<close>

theorem restart_skips_lastStarted:
  "restart ''a'' 0 (spawns 4242) (boot oneInstance 5000) = (Json_pid 4242, restartedA)
   \<and> map_option (\<lambda>tbl. map_option lastStarted (tbl ''a'')) (servers restartedA) = Some (Some None)
   \<and> disk restartedA = disk (boot oneInstance 5000)
   \<and> SaveConfig \<notin> set (journal restartedA)"
  by (simp add: restartedA_def supervisor_defs)

subsection \<open>The restart route\<close>







text \<open>
  The restart route has no answer with status 400: in no state does it refuse a
  request because the identifier is registered.
\<close>

lemma restart_never_refuses:
  "fst (restart sid late e s) \<noteq> Json_error 400 msg"
  by (simp add: restart_def restart_resume_def Let_def
      split: option.splits property.splits sum.splits)

text \<open>
  C1. When a Restart overlaps a Start on one identifier, exactly one of them registers a
  process and the other fails with AlreadyRunning, so that two live processes are never
  spawned for one identifier. In the schedule \<open>raceWindow\<close>, \<open>raceStart\<close>, \<open>raceResume\<close> the
  start request served during the restart's settle delay succeeds, the resumed restart
  succeeds as well instead of answering 400, and two processes spawned for \<open>a\<close> are alive;
  the registry points to the second and no longer to the first.
\<close>

theorem restart_races_start:
  "fst raceStart = Json_pid 102
   \<and> fst raceResume = Json_pid 103
   \<and> alive (snd raceResume) = {2, 1}
   \<and> map_option (\<lambda>proc. (serverId proc, pid proc)) (heap (snd raceResume) 1) = Some (''a'', 102)
   \<and> map_option (\<lambda>proc. (serverId proc, pid proc)) (heap (snd raceResume) 2) = Some (''a'', 103)
   \<and> activeServers (snd raceResume) ''a'' = Some 2"
  by (simp add: raceResume_def raceStart_def raceWindow_def runningA_def supervisor_defs
      numeral_2_eq_2)

subsection \<open>Joining a console\<close>

lemma slice_from_last: "0 < n \<Longrightarrow> slice_from xs (- int n) = drop (length xs - n) xs"
  by (simp add: slice_from_def Let_def max_def nat_diff_distrib')

text \<open>
  C7. A socket that joins the console of a running instance is sent the most recent
  records of the log buffer, at most 50 of them and in their order, and then one system
  message that the console is live; a socket that joins the console of an instance that
  is not running is sent one system message that the server is not running, and nothing
  else.
\<close>

theorem joinServer_replay:
  "(activeServers s sid = Some ref \<and> heap s ref = Some proc \<longrightarrow>
      fst (joinServer sock sid s) =
        map (\<lambda>(t, d). ConsoleOutput d (Some ''log'') (Some t))
            (drop (length (logs proc) - 50) (logs proc))
        @ [ConsoleOutput CONNECTED (Some ''system'') None]
      \<and> length (drop (length (logs proc) - 50) (logs proc)) = min 50 (length (logs proc)))
   \<and> (activeServers s sid = None \<longrightarrow>
      fst (joinServer sock sid s) = [ConsoleOutput NOT_RUNNING (Some ''system'') None])"
  using slice_from_last [where n = 50 and xs = "logs proc"]
  by (auto simp: joinServer_def Let_def)

lemma chattyA_eval:
  "activeServers chattyA ''a'' = Some 0
   \<and> heap chattyA 0 = Some \<lparr>serverId = ''a'', pid = 101, startTime = 1000,
        logs = [(61000, ''Starting''), (61000, ''Loading''), (61000, ''Done'')],
        onData = StartOnData, onExit = Some StartOnExit\<rparr>"
  by (simp add: chattyA_def runningA_def supervisor_defs)

theorem joinServer_replay_witness:
  "activeServers chattyA ''a'' = Some 0
   \<and> map_option logs (heap chattyA 0)
       = Some [(61000, ''Starting''), (61000, ''Loading''), (61000, ''Done'')]
   \<and> fst (joinServer 9 ''a'' chattyA) =
       [ConsoleOutput ''Starting'' (Some ''log'') (Some 61000),
        ConsoleOutput ''Loading'' (Some ''log'') (Some 61000),
        ConsoleOutput ''Done'' (Some ''log'') (Some 61000),
        ConsoleOutput CONNECTED (Some ''system'') None]
   \<and> activeServers (boot oneInstance 1000) ''a'' = None
   \<and> fst (joinServer 9 ''a'' (boot oneInstance 1000))
       = [ConsoleOutput NOT_RUNNING (Some ''system'') None]"
proof -
  let ?proc = "\<lparr>serverId = ''a'', pid = 101, startTime = 1000,
        logs = [(61000, ''Starting''), (61000, ''Loading''), (61000, ''Done'')],
        onData = StartOnData, onExit = Some StartOnExit\<rparr>"
  have live: "activeServers chattyA ''a'' = Some 0 \<and> heap chattyA 0 = Some ?proc"
    using chattyA_eval by simp
  have idle: "activeServers (boot oneInstance 1000) ''a'' = None"
    by (simp add: boot_def)
  from live joinServer_replay [where s = chattyA and sid = "''a''" and ref = 0
      and proc = ?proc and sock = 9]
  have "fst (joinServer 9 ''a'' chattyA) =
        map (\<lambda>(t, d). ConsoleOutput d (Some ''log'') (Some t))
            (drop (length (logs ?proc) - 50) (logs ?proc))
        @ [ConsoleOutput CONNECTED (Some ''system'') None]"
    by blast
  moreover from idle joinServer_replay [where s = "boot oneInstance 1000" and sid = "''a''"
      and sock = 9]
  have "fst (joinServer 9 ''a'' (boot oneInstance 1000))
       = [ConsoleOutput NOT_RUNNING (Some ''system'') None]"
    by blast
  ultimately show ?thesis using live idle by simp
qed

section \<open>Properties of the file routes\<close>

text \<open>
  The write route has no containment check: for a configured instance it writes at the
  joined path, wherever that is.
\<close>

lemma filesWrite_unchecked:
  assumes "tbl sid = Some server"
  shows "filesWrite (Some tbl) cwd None sid filePath content fs =
           (File_ok, writeFileSync fs (path_resolve cwd (path_join (directory server) filePath)) content)"
  using assms by (simp add: filesWrite_def lookupServer_def Let_def)

text \<open>
  A path with \<open>..\<close> segments that leaves the directory of instance \<open>a\<close>: the write route
  creates the file outside, the delete route refuses the same path with 403.
\<close>

lemma filesWrite_escapes:
  "''..'' \<in> set (splitOn CHR ''/'' ''../../../../etc/cron.d/job'')
   \<and> filesWrite oneInstance ''/opt/daemon'' None ''a'' ''../../../../etc/cron.d/job'' ''x'' []
       = (File_ok, [(''/etc/cron.d/job'', ''x'')])
   \<and> \<not> insideDir ''/srv/servers/minecraft/a'' ''/etc/cron.d/job''
   \<and> filesDelete oneInstance ''/opt/daemon'' None ''a'' ''../../../../etc/cron.d/job'' False
        [(''/etc/cron.d/job'', ''x'')]
       = (File_error 403 ''Access denied'', [(''/etc/cron.d/job'', ''x'')])"
  by (simp add: filesWrite_def filesDelete_def oneInstance_def lookupServer_def path_defs
      writeFileSync_def insideDir_def below_def startsWith_def)

text \<open>
  The delete route's check compares strings: it refuses a request exactly when the
  resolved path does not begin with the characters of the resolved instance directory.
\<close>

lemma filesDelete_denied_iff:
  assumes "tbl sid = Some server"
  shows "fst (filesDelete (Some tbl) cwd fsError sid filePath force fs) = File_error 403 ''Access denied''
         \<longleftrightarrow> \<not> startsWith (path_resolve cwd (path_join (directory server) filePath))
                          (path_resolve cwd (directory server))"
  using assms
  by (auto simp: filesDelete_def lookupServer_def Let_def split: option.splits)

text \<open>
  C10. The delete route refuses, with an access-denied error, every resolved path that
  is not inside the instance directory. The directory of instance \<open>a\<close> is
  \<open>/srv/servers/minecraft/a\<close>; next to it lies \<open>/srv/servers/minecraft/a-backup\<close> with a
  file. A delete request on instance \<open>a\<close> for \<open>../a-backup/world.dat\<close> resolves to that
  file, which is not inside the instance directory, and the route deletes it.
\<close>

theorem filesDelete_sibling_prefix:
  "path_resolve ''/opt/daemon'' (path_join ''/srv/servers/minecraft/a'' ''../a-backup/world.dat'')
     = ''/srv/servers/minecraft/a-backup/world.dat''
   \<and> \<not> insideDir (path_resolve ''/opt/daemon'' ''/srv/servers/minecraft/a'')
          ''/srv/servers/minecraft/a-backup/world.dat''
   \<and> filesDelete oneInstance ''/opt/daemon'' None ''a'' ''../a-backup/world.dat'' False backupFiles
       = (File_ok, [])"
  by (simp add: filesDelete_def oneInstance_def backupFiles_def lookupServer_def path_defs
      startsWith_def insideDir_def below_def existsSync_def isFile_def isDirectory_def
      unlinkSync_def)

end
